theory Spec2Isabelle
  imports Main "HOL-Library.Multiset"
begin

section \<open>FatigueSet data preparation: the model of 01_data_preparation.py\<close>

text \<open>
  The script turns the per-trial CSV files of one folder into one 3D array: it scans the
  folder for the longest table, pads every table with zero rows up to that length, stacks the
  padded tables and saves the block. This theory embeds its five functions
  (\<open>load_csv_to_numpy\<close>, \<open>pad_array\<close>, \<open>find_max_length\<close>, \<open>create_3d_array\<close>,
  \<open>process_fatigueset\<close>) and proves the properties the specification states about them.

  Modelling decisions.
  \<^item> Cells. The code only copies cells and writes the constant zero, so a cell is a value of
    any type \<open>'a\<close> with a zero. All tables of one run have this one cell type: the dtype
    promotions of NumPy (an integer table stacked with a float table) are outside the model.
  \<^item> Arrays. A NumPy array carries its shape, also when it has no rows, so a 2D array is its
    list of rows together with its column count, and a 3D array its list of slices together
    with the two inner dimensions.
  \<^item> The world. The file system the script reads is a map from paths to nodes; a directory
    node holds the names in the order \<open>os.listdir\<close> yields them, a file node holds what
    \<open>pd.read_csv\<close> makes of the file (a DataFrame or the exception raised). The files
    written by \<open>np.save\<close> go to \<open>processed_data\<close>, which the script never reads; they
    are kept in a component of their own, and \<open>np.save\<close> is taken to succeed (the module
    creates \<open>processed_data\<close> when it is loaded). Every \<open>print\<close> appends an event to
    the standard output; an event records what a line reports, not its wording. The progress
    bar of \<open>tqdm\<close> writes to the standard error and is left out.
  \<^item> Exceptions. A function that touches the world returns a pair of its outcome
    (\<open>Inl\<close> the exception raised, \<open>Inr\<close> the value returned) and the world it leaves.
  \<^item> Layout of the source. Line 64 (a second docstring inside \<open>find_max_length\<close>) and
    line 120 (the \<open>for band in bands\<close> loop) are indented by three spaces inside bodies
    indented by four. The model follows the evident block structure: the docstring is a
    statement without effect and the loop belongs to the body of \<open>process_fatigueset\<close>.
\<close>

subsection \<open>Arrays and tables\<close>

datatype exn =
    FileNotFoundError
  | NotADirectoryError
  | IsADirectoryError
  | KeyError
  | ValueError
  | ReadError string

record 'a ndarray2 =
  cells :: "'a list list"
  width :: nat

record 'a ndarray3 =
  slices :: "'a list list list"
  dim1 :: nat
  dim2 :: nat

definition shape0 :: "'a ndarray2 \<Rightarrow> nat" where
  "shape0 a = length (cells a)"




text \<open>A pandas DataFrame: the labelled columns in the file's column order and the number of
  rows. Every column of a DataFrame has that many entries.\<close>

record 'a dataframe =
  col_data :: "(string \<times> 'a list) list"
  height :: nat

definition columns :: "'a dataframe \<Rightarrow> string list" where
  "columns data = map fst (col_data data)"

text \<open>\<open>DataFrame.drop(columns=labels)\<close> removes every column that carries one of the labels
  and raises KeyError when a label is not there.\<close>

definition df_drop :: "string list \<Rightarrow> 'a dataframe \<Rightarrow> exn + 'a dataframe" where
  "df_drop labels data =
     (if list_all (\<lambda>l. l \<in> set (columns data)) labels
      then Inr (data\<lparr>col_data := filter (\<lambda>c. fst c \<notin> set labels) (col_data data)\<rparr>)
      else Inl KeyError)"

text \<open>\<open>DataFrame.to_numpy()\<close>: row \<open>i\<close> of the array holds entry \<open>i\<close> of every column.\<close>

definition to_numpy :: "'a dataframe \<Rightarrow> 'a ndarray2" where
  "to_numpy data =
     \<lparr>cells = map (\<lambda>i. map (\<lambda>c. snd c ! i) (col_data data)) [0..<height data],
      width = length (col_data data)\<rparr>"

text \<open>\<open>np.pad(array, ((0, n), (0, 0)), mode='constant', constant_values=0)\<close>.\<close>

definition np_pad_rows :: "'a::zero ndarray2 \<Rightarrow> nat \<Rightarrow> 'a ndarray2" where
  "np_pad_rows array n = array\<lparr>cells := cells array @ replicate n (replicate (width array) 0)\<rparr>"


subsection \<open>pad_array\<close>

definition pad_array :: "'a::zero ndarray2 \<Rightarrow> int \<Rightarrow> 'a ndarray2" where
  "pad_array array target_length =
     (let current_length = int (shape0 array) in
      if current_length < target_length
      then (let padding_needed = target_length - current_length
            in np_pad_rows array (nat padding_needed))
      else array)"

subsection \<open>The world: file system, standard output, saved files\<close>

datatype 'a node =
    Dir "string list"
  | File "exn + 'a dataframe"

datatype event =
    ErrorLoading string exn
  | Scanning nat string
  | MaxLength int
  | NoValidFiles string
  | Starting
  | Processing string
  | FolderNotFound string
  | Saved "nat \<times> nat \<times> nat" string
  | Complete
  | AllSaved string

record 'a world =
  nodes :: "string \<rightharpoonup> 'a node"
  stdout :: "event list"
  saved :: "string \<rightharpoonup> 'a ndarray3"

definition print_line :: "event \<Rightarrow> 'a world \<Rightarrow> 'a world" where
  "print_line e w = w\<lparr>stdout := stdout w @ [e]\<rparr>"



definition pd_read_csv :: "'a world \<Rightarrow> string \<Rightarrow> exn + 'a dataframe" where
  "pd_read_csv w p =
     (case nodes w p of
        None \<Rightarrow> Inl FileNotFoundError
      | Some (Dir _) \<Rightarrow> Inl IsADirectoryError
      | Some (File r) \<Rightarrow> r)"


text \<open>\<open>os.path.join\<close> and \<open>os.path.basename\<close> of posixpath, and the string methods used.
  \<open>lower\<close> maps the ASCII capitals, which is what \<open>str.lower\<close> does on the names of the
  catalogue.\<close>

definition os_path_join :: "string \<Rightarrow> string \<Rightarrow> string" where
  "os_path_join a b =
     (if b \<noteq> [] \<and> hd b = CHR ''/'' then b
      else if a = [] \<or> last a = CHR ''/'' then a @ b
      else a @ ''/'' @ b)"






subsection \<open>load_csv_to_numpy\<close>

text \<open>The body of the \<open>try\<close> block, then the function with its handler: every exception of
  the body is printed and turned into \<open>None\<close>.\<close>

definition load_csv_body :: "string \<Rightarrow> 'a world \<Rightarrow> exn + 'a ndarray2" where
  "load_csv_body file_path w =
     (case pd_read_csv w file_path of
        Inl e \<Rightarrow> Inl e
      | Inr data \<Rightarrow>
          if ''Unnamed: 0'' \<in> set (columns data)
          then (case df_drop [''Unnamed: 0''] data of
                  Inl e \<Rightarrow> Inl e
                | Inr data' \<Rightarrow> Inr (to_numpy data'))
          else Inr (to_numpy data))"

definition load_csv_to_numpy ::
  "string \<Rightarrow> 'a world \<Rightarrow> (exn + 'a ndarray2 option) \<times> 'a world" where
  "load_csv_to_numpy file_path w =
     (case load_csv_body file_path w of
        Inr a \<Rightarrow> (Inr (Some a), w)
      | Inl e \<Rightarrow> (Inr None, print_line (ErrorLoading file_path e) w))"

subsection \<open>find_max_length\<close>




subsection \<open>create_3d_array\<close>




subsection \<open>process_fatigueset\<close>











subsection \<open>What a run reads\<close>




definition same_reads :: "'a world \<Rightarrow> 'a world \<Rightarrow> bool" where
  "same_reads w w' = (nodes w' = nodes w \<and> saved w' = saved w)"

subsection \<open>Two runs\<close>






subsection \<open>Sample inputs\<close>

text \<open>
  Concrete inputs at which the properties are instantiated. The folder of the first group
  holds two tables that load, one with an index column and three rows and one with a single
  row, a file with another extension and a file that fails to parse; the folder of the
  second group holds nothing that loads. The listing of the first folder is a parameter.
  \<open>index_artifact\<close> is the specification's description of the column to drop: the first
  column, unnamed (pandas labels it \<open>Unnamed: 0\<close>), holding the row counter.
\<close>

definition frame_a :: "int dataframe" where
  "frame_a = \<lparr>col_data = [(''Unnamed: 0'', [0, 1, 2]), (''ch1'', [5, 6, 7]),
                           (''ch2'', [8, 9, 10])], height = 3\<rparr>"

definition frame_b :: "int dataframe" where
  "frame_b = \<lparr>col_data = [(''ch1'', [11]), (''ch2'', [12])], height = 1\<rparr>"

definition raw_low :: string where
  "raw_low = ''data/fatigueset/Raw EEG samples/Low Intensity''"

definition raw_medium :: string where
  "raw_medium = ''data/fatigueset/Raw EEG samples/Medium Intensity''"

definition sample_world :: "string list \<Rightarrow> int world" where
  "sample_world listing =
     \<lparr>nodes = [raw_low \<mapsto> Dir listing,
               raw_low @ ''/t1.csv'' \<mapsto> File (Inr frame_a),
               raw_low @ ''/t2.csv'' \<mapsto> File (Inr frame_b),
               raw_low @ ''/broken.csv'' \<mapsto> File (Inl (ReadError ''no columns'')),
               raw_medium \<mapsto> Dir [''broken.csv''],
               raw_medium @ ''/broken.csv'' \<mapsto> File (Inl (ReadError ''no columns''))],
      stdout = [], saved = Map.empty\<rparr>"

definition index_artifact :: "int dataframe \<Rightarrow> bool" where
  "index_artifact data =
     (case col_data data of
        [] \<Rightarrow> False
      | (label, entries) # _ \<Rightarrow>
          label = ''Unnamed: 0'' \<and> entries = map int [0..<height data])"

section \<open>Properties\<close>

subsection \<open>The loops, without the world\<close>



lemma same_reads_print: "same_reads w (print_line e w)"
  by (simp add: same_reads_def print_line_def)

lemma pd_read_csv_nodes: "nodes w' = nodes w \<Longrightarrow> pd_read_csv w' p = pd_read_csv w p"
  by (simp add: pd_read_csv_def)















lemma df_drop_present:
  "l \<in> set (columns data) \<Longrightarrow>
   df_drop [l] data = Inr (data\<lparr>col_data := filter (\<lambda>c. fst c \<noteq> l) (col_data data)\<rparr>)"
  by (simp add: df_drop_def)

lemma filter_absent:
  "l \<notin> set (columns data) \<Longrightarrow> filter (\<lambda>c. fst c \<noteq> l) (col_data data) = col_data data"
  by (auto simp: columns_def filter_id_conv)








subsection \<open>Two runs on the same inputs\<close>




















subsection \<open>The sample inputs, evaluated\<close>


lemma sample_read_t1:
  "pd_read_csv (sample_world ls) (os_path_join raw_low ''t1.csv'') = Inr frame_a"
  by (simp add: pd_read_csv_def sample_world_def os_path_join_def raw_low_def raw_medium_def)

lemma to_numpy_frame_a:
  "to_numpy (frame_a\<lparr>col_data := filter (\<lambda>c. fst c \<noteq> ''Unnamed: 0'') (col_data frame_a)\<rparr>)
     = \<lparr>cells = [[5, 8], [6, 9], [7, 10]], width = 2\<rparr>"
  by (simp add: to_numpy_def frame_a_def upt_rec)










subsection \<open>Padding\<close>

text \<open>
  Claim C1. For every 2D table \<open>T\<close> and target length \<open>L\<close> with \<open>L \<ge> rows(T)\<close>,
  \<open>pad_array(T, L)\<close> has exactly \<open>L\<close> rows; its first \<open>rows(T)\<close> rows are the rows of
  \<open>T\<close>, its remaining \<open>L - rows(T)\<close> rows are rows of zeros, and it has the column count
  of \<open>T\<close>.
\<close>

theorem pad_array_pads:
  fixes T :: "'a::zero ndarray2"
  assumes "int (shape0 T) \<le> L"
  shows "int (shape0 (pad_array T L)) = L
       \<and> take (shape0 T) (cells (pad_array T L)) = cells T
       \<and> drop (shape0 T) (cells (pad_array T L))
           = replicate (nat L - shape0 T) (replicate (width T) 0)
       \<and> width (pad_array T L) = width T"
  using assms by (auto simp: pad_array_def np_pad_rows_def shape0_def Let_def)

theorem pad_array_pads_witness:
  "int (shape0 \<lparr>cells = [[1, 2], [3, 4::int]], width = 2\<rparr>) \<le> 4
   \<and> pad_array \<lparr>cells = [[1, 2], [3, 4::int]], width = 2\<rparr> 4
       = \<lparr>cells = [[1, 2], [3, 4], [0, 0], [0, 0]], width = 2\<rparr>
   \<and> int (shape0 (pad_array \<lparr>cells = [[1, 2], [3, 4::int]], width = 2\<rparr> 4)) = 4"
  using pad_array_pads [of "\<lparr>cells = [[1, 2], [3, 4::int]], width = 2\<rparr>" 4]
  by (simp add: pad_array_def np_pad_rows_def shape0_def Let_def numeral_eq_Suc)

text \<open>
  Claim C4. For every 2D table \<open>T\<close> and target length \<open>L\<close> with \<open>L \<le> rows(T)\<close>,
  \<open>pad_array(T, L)\<close> is \<open>T\<close> itself: nothing is ever cut off.
\<close>

theorem pad_array_no_truncation:
  fixes T :: "'a::zero ndarray2"
  assumes "L \<le> int (shape0 T)"
  shows "pad_array T L = T"
  using assms by (simp add: pad_array_def Let_def)

theorem pad_array_no_truncation_witness:
  "1 \<le> int (shape0 \<lparr>cells = [[1, 2], [3, 4::int]], width = 2\<rparr>)
   \<and> pad_array \<lparr>cells = [[1, 2], [3, 4::int]], width = 2\<rparr> 1
       = \<lparr>cells = [[1, 2], [3, 4]], width = 2\<rparr>"
  using pad_array_no_truncation [of 1 "\<lparr>cells = [[1, 2], [3, 4::int]], width = 2\<rparr>"]
  by (simp add: shape0_def)

subsection \<open>Stacking\<close>



subsection \<open>The catalogue of groups\<close>







subsection \<open>Loading\<close>



text \<open>
  Claim C8, as the code has it. When the file parses, \<open>load_csv_to_numpy\<close> returns the
  array of the columns whose label is not \<open>Unnamed: 0\<close>, in the file's column order: a
  table with no column of that label keeps all its columns, and a table whose first column
  alone has that label loses exactly its first column. The column is chosen by its label,
  not by its position or by what it holds.
\<close>

theorem loader_drops_by_label:
  assumes "pd_read_csv w p = Inr data"
  shows "load_csv_to_numpy p w
           = (Inr (Some (to_numpy
                (data\<lparr>col_data := filter (\<lambda>c. fst c \<noteq> ''Unnamed: 0'') (col_data data)\<rparr>))), w)
       \<and> (''Unnamed: 0'' \<notin> set (columns data) \<longrightarrow>
            load_csv_to_numpy p w = (Inr (Some (to_numpy data)), w))
       \<and> (\<forall>c rest. col_data data = (''Unnamed: 0'', c) # rest
              \<and> ''Unnamed: 0'' \<notin> set (map fst rest) \<longrightarrow>
            load_csv_to_numpy p w = (Inr (Some (to_numpy (data\<lparr>col_data := rest\<rparr>))), w))"
proof -
  let ?U = "''Unnamed: 0''"
  let ?d = "data\<lparr>col_data := filter (\<lambda>c. fst c \<noteq> ?U) (col_data data)\<rparr>"
  have 1: "load_csv_to_numpy p w = (Inr (Some (to_numpy ?d)), w)"
  proof (cases "?U \<in> set (columns data)")
    case True
    then show ?thesis using assms df_drop_present [OF True]
      by (simp add: load_csv_to_numpy_def load_csv_body_def)
  next
    case False
    then have "?d = data" using filter_absent [OF False] by simp
    then show ?thesis using assms False
      by (simp add: load_csv_to_numpy_def load_csv_body_def)
  qed
  have 2: "load_csv_to_numpy p w = (Inr (Some (to_numpy data)), w)"
    if "?U \<notin> set (columns data)"
    using assms that by (simp add: load_csv_to_numpy_def load_csv_body_def)
  have 3: "load_csv_to_numpy p w = (Inr (Some (to_numpy (data\<lparr>col_data := rest\<rparr>))), w)"
    if "col_data data = (?U, c) # rest" and "?U \<notin> set (map fst rest)" for c rest
  proof -
    have "filter (\<lambda>c. fst c \<noteq> ?U) rest = rest"
      using that(2) by (force simp: filter_id_conv)
    then have "filter (\<lambda>c. fst c \<noteq> ?U) (col_data data) = rest"
      using that(1) by simp
    then show ?thesis using 1 by simp
  qed
  show ?thesis using 1 2 3 by blast
qed

theorem loader_drops_by_label_witness:
  "pd_read_csv (sample_world []) (os_path_join raw_low ''t1.csv'') = Inr frame_a
   \<and> load_csv_to_numpy (os_path_join raw_low ''t1.csv'') (sample_world [])
       = (Inr (Some \<lparr>cells = [[5, 8], [6, 9], [7, 10]], width = 2\<rparr>), sample_world [])"
  using loader_drops_by_label [OF sample_read_t1, of "[]"] sample_read_t1 [of "[]"]
        to_numpy_frame_a
  by simp

text \<open>
  Claim C8 as stated fails in its last part, that a table without an unnamed row-index first
  column keeps all its columns. A table whose second column is labelled \<open>Unnamed: 0\<close> has
  no such first column and loses that second column; a table whose unnamed first column
  holds \<open>7, 7\<close>, which is no row counter, loses it all the same.
\<close>

theorem loader_keeps_all_columns_counterexample:
  "\<not> index_artifact \<lparr>col_data = [(''ch1'', [1, 2]), (''Unnamed: 0'', [5, 7])], height = 2\<rparr>
   \<and> to_numpy \<lparr>col_data = [(''ch1'', [1, 2]), (''Unnamed: 0'', [5, 7::int])], height = 2\<rparr>
       = \<lparr>cells = [[1, 5], [2, 7]], width = 2\<rparr>
   \<and> fst (load_csv_to_numpy ''x.csv''
        \<lparr>nodes = [''x.csv'' \<mapsto> File (Inr
            \<lparr>col_data = [(''ch1'', [1, 2]), (''Unnamed: 0'', [5, 7])], height = 2\<rparr>)],
         stdout = [], saved = Map.empty\<rparr>)
       = Inr (Some \<lparr>cells = [[1], [2]], width = 1\<rparr>)
   \<and> \<not> index_artifact \<lparr>col_data = [(''Unnamed: 0'', [7, 7]), (''ch1'', [1, 2])], height = 2\<rparr>
   \<and> to_numpy \<lparr>col_data = [(''Unnamed: 0'', [7, 7]), (''ch1'', [1, 2::int])], height = 2\<rparr>
       = \<lparr>cells = [[7, 1], [7, 2]], width = 2\<rparr>
   \<and> fst (load_csv_to_numpy ''y.csv''
        \<lparr>nodes = [''y.csv'' \<mapsto> File (Inr
            \<lparr>col_data = [(''Unnamed: 0'', [7, 7]), (''ch1'', [1, 2])], height = 2\<rparr>)],
         stdout = [], saved = Map.empty\<rparr>)
       = Inr (Some \<lparr>cells = [[1], [2]], width = 1\<rparr>)"
  by (simp add: index_artifact_def to_numpy_def load_csv_to_numpy_def load_csv_body_def
      pd_read_csv_def columns_def df_drop_def upt_rec)

subsection \<open>Scanning\<close>



subsection \<open>The two passes of one group\<close>



subsection \<open>A group without valid tables\<close>



subsection \<open>Running the pipeline twice\<close>




end
